theory Spec2Isabelle
  imports Complex_Main
begin

section \<open>The segmented controls of the page script\<close>

text \<open>
  The page script holds two segmented controls: the capabilities tabs
  (\<^verbatim>\<open>initCapabilitiesTabs\<close> in \<^verbatim>\<open>src/assets/main.js\<close>, \<^verbatim>\<open>capabilitiesTabs\<close> in
  \<^verbatim>\<open>src/unnamed/part_000\<close>) and the contrast switcher (the arrow function after the
  \<^verbatim>\<open>DOMContentLoaded\<close> handler, in both files). Their state is the state of the DOM
  elements they query, so the model is a record of those elements and every function of
  the source becomes a function from that record to the new record and the exception
  thrown, if any. An exception leaves the writes made before it in place, so the record
  is returned in both cases.

  JavaScript numbers that carry pixels are modelled as reals (finite values; the
  rounding of IEEE doubles is not modelled). Numbers that carry indices are integers or
  \<open>NaN\<close>. The layout (bounding boxes, offsets, padding, scroll position) is a field of
  the elements: it is read where the source reads it and never written.
\<close>

subsection \<open>Values\<close>

datatype build = Main_js | Part_000

datatype error = TypeError

datatype jsnum = Num int | NaN

type_synonym 'd result = "error option \<times> 'd"

text \<open>Sequencing of two statements: the second one does not run when the first threw.\<close>

definition and_then :: "'d result \<Rightarrow> ('d \<Rightarrow> 'd result) \<Rightarrow> 'd result" where
  "and_then r f = (case fst r of Some e \<Rightarrow> r | None \<Rightarrow> f (snd r))"

text \<open>\<^verbatim>\<open>a % b\<close> on integers: the sign of the dividend, \<open>NaN\<close> for a zero divisor.\<close>

definition js_rem :: "int \<Rightarrow> int \<Rightarrow> jsnum" where
  "js_rem a b = (if b = 0 then NaN else Num (sgn a * (\<bar>a\<bar> mod \<bar>b\<bar>)))"

text \<open>\<^verbatim>\<open>xs[i]\<close>: \<^verbatim>\<open>undefined\<close> (here \<open>None\<close>) out of range and at \<open>NaN\<close>.\<close>

definition nth_js :: "'a list \<Rightarrow> jsnum \<Rightarrow> 'a option" where
  "nth_js xs i =
     (case i of
        NaN \<Rightarrow> None
      | Num k \<Rightarrow> if 0 \<le> k \<and> k < int (length xs) then Some (xs ! nat k) else None)"

text \<open>\<^verbatim>\<open>xs.findIndex(P)\<close>: the first index whose element satisfies \<open>P\<close>, or \<open>-1\<close>.\<close>

fun findIndex_from :: "('a \<Rightarrow> bool) \<Rightarrow> 'a list \<Rightarrow> int \<Rightarrow> int" where
  "findIndex_from P [] k = - 1"
| "findIndex_from P (x # xs) k = (if P x then k else findIndex_from P xs (k + 1))"

definition findIndex :: "('a \<Rightarrow> bool) \<Rightarrow> 'a list \<Rightarrow> int" where
  "findIndex P xs = findIndex_from P xs 0"

text \<open>\<^verbatim>\<open>xs.forEach((x, i) => ...)\<close> where the body writes to the element \<open>x\<close> only.\<close>

definition forEach_idx :: "(nat \<Rightarrow> 'a \<Rightarrow> 'a) \<Rightarrow> 'a list \<Rightarrow> 'a list" where
  "forEach_idx f xs = map (\<lambda>(i, x). f i x) (enumerate 0 xs)"

definition String_of_bool :: "bool \<Rightarrow> string" where
  "String_of_bool on = (if on then ''true'' else ''false'')"

subsection \<open>Elements\<close>

text \<open>A \<^verbatim>\<open>.pill\<close> of the capabilities tabs.\<close>

record pill =
  pill_active :: bool
  aria_selected :: "string option"
  tabIndex :: int
  rect_left :: real
  rect_width :: real

text \<open>A \<^verbatim>\<open>.seg\<close> of the contrast switcher.\<close>

record seg =
  seg_active :: bool
  offsetLeft :: real
  offsetWidth :: real

text \<open>A content panel: the \<^verbatim>\<open>hidden\<close> property and the class \<^verbatim>\<open>is-active\<close>.\<close>

record panel =
  panel_hidden :: bool
  is_active :: bool

text \<open>The sliding indicator: \<^verbatim>\<open>style.width\<close> and the \<^verbatim>\<open>translateX\<close> of
  \<^verbatim>\<open>style.transform\<close>, both in pixels, \<open>None\<close> while unset.\<close>

record indicator =
  style_width :: "real option"
  style_translateX :: "real option"

text \<open>The container (\<^verbatim>\<open>wrap\<close>): the left edge of its bounding box, its horizontal
  scroll offset and its computed left padding.\<close>

record container =
  c_rect_left :: real
  scrollLeft :: real
  paddingLeft :: real

datatype listener = On_click | On_mouseenter | On_mouseleave | On_keydown | On_resize

subsection \<open>Capabilities tabs\<close>

text \<open>
  What the function queries: \<^verbatim>\<open>wrap\<close>, \<^verbatim>\<open>pills\<close>, \<^verbatim>\<open>underline\<close>, \<^verbatim>\<open>panels\<close>, and
  which pill of the control holds the keyboard focus. A query that finds nothing is
  \<open>None\<close> or the empty list; a property access on \<open>None\<close> throws \<open>TypeError\<close>.
\<close>

record cap_doc =
  cap_wrap :: "container option"
  cap_pills :: "pill list"
  cap_underline :: "indicator option"
  cap_panels :: "panel list"
  cap_focus :: "nat option"

text \<open>\<^verbatim>\<open>moveUnderline\<close>. Only \<^verbatim>\<open>part_000\<close> returns at a missing pill.\<close>

definition moveUnderline :: "build \<Rightarrow> pill option \<Rightarrow> cap_doc \<Rightarrow> cap_doc result" where
  "moveUnderline b el d =
     (case el of
        None \<Rightarrow> (case b of Main_js \<Rightarrow> (Some TypeError, d) | Part_000 \<Rightarrow> (None, d))
      | Some p \<Rightarrow>
          (case cap_wrap d of
             None \<Rightarrow> (Some TypeError, d)
           | Some w \<Rightarrow>
               (let x = rect_left p - c_rect_left w + scrollLeft w in
                case cap_underline d of
                  None \<Rightarrow> (Some TypeError, d)
                | Some u \<Rightarrow>
                    (None, d\<lparr>cap_underline :=
                       Some (u\<lparr>style_width := Some (rect_width p),
                                style_translateX := Some x\<rparr>)\<rparr>))))"

text \<open>The bodies of the two \<^verbatim>\<open>forEach\<close> loops of \<^verbatim>\<open>setActive\<close>: what they write to pill
  \<open>i\<close> and to panel \<open>i\<close>.\<close>

definition mark_pill :: "jsnum \<Rightarrow> nat \<Rightarrow> pill \<Rightarrow> pill" where
  "mark_pill index i p =
     (let on = (Num (int i) = index) in
      p\<lparr>pill_active := on,
        aria_selected := Some (String_of_bool on),
        tabIndex := (if on then 0 else - 1)\<rparr>)"

definition mark_panel :: "jsnum \<Rightarrow> nat \<Rightarrow> panel \<Rightarrow> panel" where
  "mark_panel index i q =
     (let on = (Num (int i) = index) in q\<lparr>panel_hidden := \<not> on, is_active := on\<rparr>)"

text \<open>\<^verbatim>\<open>setActive\<close> of the capabilities tabs.\<close>

definition setActive :: "build \<Rightarrow> jsnum \<Rightarrow> cap_doc \<Rightarrow> cap_doc result" where
  "setActive b index d =
     (let d1 = d\<lparr>cap_pills := forEach_idx (mark_pill index) (cap_pills d)\<rparr>;
          d2 = d1\<lparr>cap_panels := forEach_idx (mark_panel index) (cap_panels d1)\<rparr>
      in moveUnderline b (nth_js (cap_pills d2) index) d2)"

text \<open>The click listener of pill \<open>i\<close>.\<close>

definition cap_click :: "build \<Rightarrow> nat \<Rightarrow> cap_doc \<Rightarrow> cap_doc result" where
  "cap_click b i d = setActive b (Num (int i)) d"

text \<open>\<^verbatim>\<open>$('.pill.active', wrap)\<close>: the first pill, in document order, that carries
  \<^verbatim>\<open>active\<close>; the call throws when \<^verbatim>\<open>wrap\<close> is null.\<close>

definition cap_query_active :: "cap_doc \<Rightarrow> error + pill option" where
  "cap_query_active d =
     (case cap_wrap d of
        None \<Rightarrow> Inl TypeError
      | Some w \<Rightarrow> Inr (find pill_active (cap_pills d)))"

text \<open>The hover listeners, present in \<^verbatim>\<open>main.js\<close> only. The argument of
  \<open>cap_mouseenter\<close> is the value of \<^verbatim>\<open>e.target.closest('.pill')\<close>.\<close>

definition cap_mouseenter :: "pill option \<Rightarrow> cap_doc \<Rightarrow> cap_doc result" where
  "cap_mouseenter pill d =
     (case pill of None \<Rightarrow> (None, d) | Some p \<Rightarrow> moveUnderline Main_js (Some p) d)"

definition cap_mouseleave :: "cap_doc \<Rightarrow> cap_doc result" where
  "cap_mouseleave d =
     (case cap_query_active d of
        Inl e \<Rightarrow> (Some e, d)
      | Inr el \<Rightarrow> moveUnderline Main_js el d)"

text \<open>The resize listener.\<close>

definition cap_resize :: "build \<Rightarrow> cap_doc \<Rightarrow> cap_doc result" where
  "cap_resize b d =
     (case cap_query_active d of
        Inl e \<Rightarrow> (Some e, d)
      | Inr el \<Rightarrow> moveUnderline b el d)"

text \<open>\<^verbatim>\<open>pills[k].focus()\<close>.\<close>

definition focus_pill :: "jsnum \<Rightarrow> cap_doc \<Rightarrow> cap_doc result" where
  "focus_pill k d =
     (case k of
        NaN \<Rightarrow> (Some TypeError, d)
      | Num j \<Rightarrow>
          if 0 \<le> j \<and> j < int (length (cap_pills d))
          then (None, d\<lparr>cap_focus := Some (nat j)\<rparr>)
          else (Some TypeError, d))"

text \<open>The keydown listener. The second component tells whether
  \<^verbatim>\<open>e.preventDefault()\<close> was called.\<close>

definition cap_keydown :: "build \<Rightarrow> string \<Rightarrow> cap_doc \<Rightarrow> cap_doc result \<times> bool" where
  "cap_keydown b key d =
     (let curr = findIndex pill_active (cap_pills d);
          n = int (length (cap_pills d));
          r1 = (if key = ''ArrowRight''
                then and_then (setActive b (js_rem (curr + 1) n) d)
                              (focus_pill (js_rem (curr + 1) n))
                else (None, d));
          p1 = (key = ''ArrowRight'');
          r2 = (if key = ''ArrowLeft''
                then and_then r1 (\<lambda>d1.
                       and_then (setActive b (js_rem (curr - 1 + n) n) d1)
                                (focus_pill (js_rem (curr - 1 + n) n)))
                else r1);
          p2 = (p1 \<or> (fst r1 = None \<and> key = ''ArrowLeft''))
      in (r2, p2))"

text \<open>
  The function itself. It returns the listeners it registered, in order: none when it
  returns at the guard, and no resize listener when the first \<^verbatim>\<open>setActive\<close> threw.
  \<^verbatim>\<open>main.js\<close> tests \<^verbatim>\<open>initialIndex >= 0\<close>, \<^verbatim>\<open>part_000\<close> takes \<^verbatim>\<open>Math.max(0, ...)\<close>.
\<close>

definition initCapabilitiesTabs :: "build \<Rightarrow> cap_doc \<Rightarrow> cap_doc result \<times> listener list" where
  "initCapabilitiesTabs b d =
     (if cap_wrap d = None \<or> cap_pills d = [] \<or> cap_panels d = [] \<or> cap_underline d = None
      then ((None, d), [])
      else
        (let ls = (case b of
                     Main_js \<Rightarrow> [On_click, On_mouseenter, On_mouseleave, On_keydown]
                   | Part_000 \<Rightarrow> [On_click, On_keydown]);
             initialIndex = findIndex pill_active (cap_pills d);
             initial = (case b of
                          Main_js \<Rightarrow> (if initialIndex \<ge> 0 then initialIndex else 0)
                        | Part_000 \<Rightarrow> max 0 initialIndex);
             r = setActive b (Num initial) d
         in (r, if fst r = None then ls @ [On_resize] else ls)))"

subsection \<open>Contrast switcher\<close>

text \<open>
  \<^verbatim>\<open>wrap\<close>, \<^verbatim>\<open>pills\<close> (the \<^verbatim>\<open>.seg\<close> elements), \<^verbatim>\<open>thumb\<close>, \<^verbatim>\<open>panelDo\<close>,
  \<^verbatim>\<open>panelDont\<close>, and which segment holds the keyboard focus (the code never moves it).
  The two files differ only in \<^verbatim>\<open>|| 0\<close> after \<^verbatim>\<open>parseFloat\<close>, which changes nothing
  for a padding that is a number.
\<close>

record con_doc =
  con_wrap :: "container option"
  con_pills :: "seg list"
  con_thumb :: "indicator option"
  panelDo :: "panel option"
  panelDont :: "panel option"
  con_focus :: "nat option"

text \<open>\<^verbatim>\<open>moveThumb\<close>. Both files return at a missing segment.\<close>

definition moveThumb :: "seg option \<Rightarrow> con_doc \<Rightarrow> con_doc result" where
  "moveThumb el d =
     (case el of
        None \<Rightarrow> (None, d)
      | Some s \<Rightarrow>
          (case con_wrap d of
             None \<Rightarrow> (Some TypeError, d)
           | Some w \<Rightarrow>
               (let x = offsetLeft s - paddingLeft w in
                case con_thumb d of
                  None \<Rightarrow> (Some TypeError, d)
                | Some t \<Rightarrow>
                    (None, d\<lparr>con_thumb :=
                       Some (t\<lparr>style_width := Some (offsetWidth s),
                                style_translateX := Some x\<rparr>)\<rparr>))))"

text \<open>The body of the \<^verbatim>\<open>forEach\<close> loop of \<^verbatim>\<open>setActive\<close>: what it writes to segment
  \<open>idx\<close>.\<close>

definition mark_seg :: "jsnum \<Rightarrow> nat \<Rightarrow> seg \<Rightarrow> seg" where
  "mark_seg i idx p = p\<lparr>seg_active := (Num (int idx) = i)\<rparr>"

text \<open>\<^verbatim>\<open>setActive\<close> of the contrast switcher.\<close>

definition setActive_contrast :: "jsnum \<Rightarrow> con_doc \<Rightarrow> con_doc result" where
  "setActive_contrast i d =
     (let d1 = d\<lparr>con_pills := forEach_idx (mark_seg i) (con_pills d)\<rparr>;
          showDo = (i = Num 0)
      in case panelDo d1 of
           None \<Rightarrow> (Some TypeError, d1)
         | Some pd \<Rightarrow>
             (let d2 = d1\<lparr>panelDo := Some (pd\<lparr>panel_hidden := \<not> showDo\<rparr>)\<rparr> in
              case panelDont d2 of
                None \<Rightarrow> (Some TypeError, d2)
              | Some pn \<Rightarrow>
                  (let d3 = d2\<lparr>panelDont := Some (pn\<lparr>panel_hidden := showDo\<rparr>)\<rparr>
                   in moveThumb (nth_js (con_pills d3) i) d3)))"

text \<open>The click listener of segment \<open>i\<close> and the keydown listener, which calls no
  \<^verbatim>\<open>focus()\<close>.\<close>

definition con_click :: "nat \<Rightarrow> con_doc \<Rightarrow> con_doc result" where
  "con_click i d = setActive_contrast (Num (int i)) d"

definition con_keydown :: "string \<Rightarrow> con_doc \<Rightarrow> con_doc result \<times> bool" where
  "con_keydown key d =
     (let curr = findIndex seg_active (con_pills d);
          n = int (length (con_pills d));
          r1 = (if key = ''ArrowRight''
                then setActive_contrast (js_rem (curr + 1) n) d
                else (None, d));
          p1 = (key = ''ArrowRight'');
          r2 = (if key = ''ArrowLeft''
                then and_then r1 (setActive_contrast (js_rem (curr - 1 + n) n))
                else r1);
          p2 = (p1 \<or> (fst r1 = None \<and> key = ''ArrowLeft''))
      in (r2, p2))"

text \<open>The resize listener: \<^verbatim>\<open>moveThumb(wrap.querySelector('.seg.active'))\<close>.\<close>

definition con_resize :: "con_doc \<Rightarrow> con_doc result" where
  "con_resize d =
     (case con_wrap d of
        None \<Rightarrow> (Some TypeError, d)
      | Some w \<Rightarrow> moveThumb (find seg_active (con_pills d)) d)"

text \<open>
  The arrow function itself, with the listeners it registered: none when there is no
  wrap, and no resize listener when the first \<^verbatim>\<open>setActive\<close> threw.
\<close>

definition initContrastSwitcher :: "con_doc \<Rightarrow> con_doc result \<times> listener list" where
  "initContrastSwitcher d =
     (case con_wrap d of
        None \<Rightarrow> ((None, d), [])
      | Some w \<Rightarrow>
          (let ls = [On_click, On_keydown];
               initial = max 0 (findIndex seg_active (con_pills d));
               r = setActive_contrast (Num initial) d
           in (r, if fst r = None then ls @ [On_resize] else ls)))"

subsection \<open>Events\<close>

text \<open>
  The host delivers an event to the listener registered for it and to nothing else.
  \<open>Click i\<close> is a click on item \<open>i\<close>; \<open>Mouseenter t\<close> carries the pill that
  \<^verbatim>\<open>closest('.pill')\<close> finds from the event target.
\<close>

datatype event = Click nat | Mouseenter "pill option" | Mouseleave | Keydown string | Resize

definition cap_dispatch :: "build \<Rightarrow> listener list \<Rightarrow> event \<Rightarrow> cap_doc \<Rightarrow> cap_doc result" where
  "cap_dispatch b ls ev d =
     (case ev of
        Click i \<Rightarrow>
          if On_click \<in> set ls \<and> i < length (cap_pills d) then cap_click b i d else (None, d)
      | Mouseenter t \<Rightarrow> if On_mouseenter \<in> set ls then cap_mouseenter t d else (None, d)
      | Mouseleave \<Rightarrow> if On_mouseleave \<in> set ls then cap_mouseleave d else (None, d)
      | Keydown k \<Rightarrow> if On_keydown \<in> set ls then fst (cap_keydown b k d) else (None, d)
      | Resize \<Rightarrow> if On_resize \<in> set ls then cap_resize b d else (None, d))"

definition con_dispatch :: "listener list \<Rightarrow> event \<Rightarrow> con_doc \<Rightarrow> con_doc result" where
  "con_dispatch ls ev d =
     (case ev of
        Click i \<Rightarrow>
          if On_click \<in> set ls \<and> i < length (con_pills d) then con_click i d else (None, d)
      | Mouseenter t \<Rightarrow> (None, d)
      | Mouseleave \<Rightarrow> (None, d)
      | Keydown k \<Rightarrow> if On_keydown \<in> set ls then fst (con_keydown k d) else (None, d)
      | Resize \<Rightarrow> if On_resize \<in> set ls then con_resize d else (None, d))"

subsection \<open>Notions of the specification\<close>

text \<open>
  From the words of the specification, for comparison with the code: \<open>k\<close> is the index
  of the lowest-indexed marked item, or 0 when no item is marked. The list holds the
  markers of the items in index order.
\<close>

definition lowest_marked :: "bool list \<Rightarrow> nat \<Rightarrow> bool" where
  "lowest_marked ms k \<longleftrightarrow>
     (k < length ms \<and> ms ! k \<and> True \<notin> set (take k ms)) \<or> (k = 0 \<and> True \<notin> set ms)"

text \<open>
  From the words of the specification, for comparison with the code: the horizontal
  position of an item relative to the content origin of the container, accounting for
  the horizontal scroll offset and for the left padding. \<open>item_left\<close> is the left edge
  of the bounding box of the item.
\<close>

definition spec_offset :: "real \<Rightarrow> container \<Rightarrow> real" where
  "spec_offset item_left w = item_left - c_rect_left w + scrollLeft w - paddingLeft w"

subsection \<open>Example markup\<close>

text \<open>
  Three pills with three panels, where the markup marks pills 0 and 2 as active, and
  two segments with their two panels, where the markup marks segment 0. The strip of
  pills has a left padding of 8 pixels, and the first pill starts right after it.
\<close>

definition ex_pill :: "bool \<Rightarrow> real \<Rightarrow> real \<Rightarrow> pill" where
  "ex_pill a l w =
     \<lparr>pill_active = a, aria_selected = None, tabIndex = 0, rect_left = l, rect_width = w\<rparr>"

definition ex_panel :: panel where
  "ex_panel = \<lparr>panel_hidden = False, is_active = False\<rparr>"

definition ex_indicator :: indicator where
  "ex_indicator = \<lparr>style_width = None, style_translateX = None\<rparr>"

definition ex_caps :: cap_doc where
  "ex_caps =
     \<lparr>cap_wrap = Some \<lparr>c_rect_left = 0, scrollLeft = 0, paddingLeft = 8\<rparr>,
      cap_pills = [ex_pill True 8 52, ex_pill False 60 60, ex_pill True 120 40],
      cap_underline = Some ex_indicator,
      cap_panels = [ex_panel, ex_panel, ex_panel],
      cap_focus = Some 0\<rparr>"

definition ex_contrast :: con_doc where
  "ex_contrast =
     \<lparr>con_wrap = Some \<lparr>c_rect_left = 0, scrollLeft = 0, paddingLeft = 4\<rparr>,
      con_pills = [\<lparr>seg_active = True, offsetLeft = 4, offsetWidth = 90\<rparr>,
                   \<lparr>seg_active = False, offsetLeft = 94, offsetWidth = 110\<rparr>],
      con_thumb = Some ex_indicator,
      panelDo = Some ex_panel,
      panelDont = Some ex_panel,
      con_focus = Some 0\<rparr>"

section \<open>Properties\<close>

subsection \<open>Library functions\<close>

lemmas ex_defs = ex_caps_def ex_contrast_def ex_pill_def ex_panel_def ex_indicator_def

lemma length_forEach_idx [simp]: "length (forEach_idx f xs) = length xs"
  by (simp add: forEach_idx_def)

lemma nth_forEach_idx [simp]: "i < length xs \<Longrightarrow> forEach_idx f xs ! i = f i (xs ! i)"
  by (simp add: forEach_idx_def nth_enumerate_eq)

lemma findIndex_from_eq:
  "findIndex_from P xs k =
     (if \<exists>x\<in>set xs. P x then k + int (length (takeWhile (Not \<circ> P) xs)) else - 1)"
  by (induction xs arbitrary: k) auto

lemma findIndex_eq:
  "findIndex P xs =
     (if \<exists>x\<in>set xs. P x then int (length (takeWhile (Not \<circ> P) xs)) else - 1)"
  by (simp add: findIndex_def findIndex_from_eq)

lemma findIndex_first:
  assumes "k < length xs" and "P (xs ! k)" and "\<forall>j<k. \<not> P (xs ! j)"
  shows "findIndex P xs = int k"
proof -
  have "takeWhile (Not \<circ> P) xs = take k xs"
    using assms by (intro takeWhile_eq_take_P_nth) auto
  moreover have "\<exists>x\<in>set xs. P x"
    using assms(1,2) nth_mem by blast
  ultimately show ?thesis
    using assms(1) by (simp add: findIndex_eq)
qed

lemma findIndex_none: "\<forall>x\<in>set xs. \<not> P x \<Longrightarrow> findIndex P xs = - 1"
  by (simp add: findIndex_eq)

lemma find_first:
  assumes "k < length xs" and "P (xs ! k)" and "\<forall>j<k. \<not> P (xs ! j)"
  shows "find P xs = Some (xs ! k)"
  using assms by (auto simp: find_Some_iff)

lemma nth_js_Num [simp]: "i < length xs \<Longrightarrow> nth_js xs (Num (int i)) = Some (xs ! i)"
  by (simp add: nth_js_def)

lemma nth_js_forEach_idx:
  "nth_js (forEach_idx f xs) i =
     (case i of
        NaN \<Rightarrow> None
      | Num k \<Rightarrow> if 0 \<le> k \<and> k < int (length xs) then Some (f (nat k) (xs ! nat k)) else None)"
  by (auto simp: nth_js_def split: jsnum.splits)

lemma js_rem_mod: "0 \<le> a \<Longrightarrow> 0 < b \<Longrightarrow> js_rem a b = Num (a mod b)"
  by (cases "a = 0") (simp_all add: js_rem_def)

subsection \<open>Capabilities tabs: what each function writes\<close>

lemma moveUnderline_frame:
  "cap_pills (snd (moveUnderline b el d)) = cap_pills d"
  "cap_panels (snd (moveUnderline b el d)) = cap_panels d"
  "cap_focus (snd (moveUnderline b el d)) = cap_focus d"
  "cap_wrap (snd (moveUnderline b el d)) = cap_wrap d"
  by (simp_all add: moveUnderline_def Let_def split: option.splits build.splits)

lemma moveUnderline_Some:
  assumes "cap_wrap d = Some w" and "cap_underline d = Some u"
  shows "moveUnderline b (Some p) d =
           (None, d\<lparr>cap_underline :=
              Some (u\<lparr>style_width := Some (rect_width p),
                       style_translateX := Some (rect_left p - c_rect_left w + scrollLeft w)\<rparr>)\<rparr>)"
  using assms by (simp add: moveUnderline_def)

lemma setActive_frame:
  "cap_pills (snd (setActive b index d)) = forEach_idx (mark_pill index) (cap_pills d)"
  "cap_panels (snd (setActive b index d)) = forEach_idx (mark_panel index) (cap_panels d)"
  "cap_focus (snd (setActive b index d)) = cap_focus d"
  "cap_wrap (snd (setActive b index d)) = cap_wrap d"
  by (simp_all add: setActive_def Let_def moveUnderline_frame)

lemma setActive_valid:
  assumes "i < length (cap_pills d)" and "cap_wrap d = Some w" and "cap_underline d = Some u"
  shows "setActive b (Num (int i)) d =
           (None, d\<lparr>cap_pills := forEach_idx (mark_pill (Num (int i))) (cap_pills d),
                    cap_panels := forEach_idx (mark_panel (Num (int i))) (cap_panels d),
                    cap_underline :=
                      Some (u\<lparr>style_width := Some (rect_width (cap_pills d ! i)),
                               style_translateX :=
                                 Some (rect_left (cap_pills d ! i) - c_rect_left w + scrollLeft w)\<rparr>)\<rparr>)"
  using assms by (simp add: setActive_def Let_def moveUnderline_Some mark_pill_def)

lemma mark_pill_active [simp]: "pill_active (mark_pill index j p) = (Num (int j) = index)"
  by (simp add: mark_pill_def Let_def)

lemma mark_panel_hidden [simp]: "panel_hidden (mark_panel index j q) = (Num (int j) \<noteq> index)"
  by (simp add: mark_panel_def Let_def)

subsection \<open>Contrast switcher: what each function writes\<close>

lemma moveThumb_frame:
  "con_pills (snd (moveThumb el d)) = con_pills d"
  "panelDo (snd (moveThumb el d)) = panelDo d"
  "panelDont (snd (moveThumb el d)) = panelDont d"
  "con_focus (snd (moveThumb el d)) = con_focus d"
  "con_wrap (snd (moveThumb el d)) = con_wrap d"
  by (simp_all add: moveThumb_def Let_def split: option.splits)

lemma moveThumb_Some:
  assumes "con_wrap d = Some w" and "con_thumb d = Some t"
  shows "moveThumb (Some s) d =
           (None, d\<lparr>con_thumb :=
              Some (t\<lparr>style_width := Some (offsetWidth s),
                       style_translateX := Some (offsetLeft s - paddingLeft w)\<rparr>)\<rparr>)"
  using assms by (simp add: moveThumb_def)

lemma setActive_contrast_frame:
  "con_pills (snd (setActive_contrast i d)) = forEach_idx (mark_seg i) (con_pills d)"
  "con_focus (snd (setActive_contrast i d)) = con_focus d"
  "con_wrap (snd (setActive_contrast i d)) = con_wrap d"
  by (simp_all add: setActive_contrast_def Let_def moveThumb_frame split: option.splits)

lemma setActive_contrast_panels:
  assumes "panelDo d = Some pd" and "panelDont d = Some pn"
  shows "panelDo (snd (setActive_contrast i d)) = Some (pd\<lparr>panel_hidden := (i \<noteq> Num 0)\<rparr>)"
    and "panelDont (snd (setActive_contrast i d)) = Some (pn\<lparr>panel_hidden := (i = Num 0)\<rparr>)"
  using assms by (simp_all add: setActive_contrast_def Let_def moveThumb_frame)

lemma setActive_contrast_valid:
  assumes "i < length (con_pills d)" and "con_wrap d = Some w" and "con_thumb d = Some t"
    and "panelDo d = Some pd" and "panelDont d = Some pn"
  shows "setActive_contrast (Num (int i)) d =
           (None, d\<lparr>con_pills := forEach_idx (mark_seg (Num (int i))) (con_pills d),
                    panelDo := Some (pd\<lparr>panel_hidden := (i \<noteq> 0)\<rparr>),
                    panelDont := Some (pn\<lparr>panel_hidden := (i = 0)\<rparr>),
                    con_thumb :=
                      Some (t\<lparr>style_width := Some (offsetWidth (con_pills d ! i)),
                               style_translateX :=
                                 Some (offsetLeft (con_pills d ! i) - paddingLeft w)\<rparr>)\<rparr>)"
  using assms by (simp add: setActive_contrast_def Let_def moveThumb_Some mark_seg_def)

lemma mark_seg_active [simp]: "seg_active (mark_seg index j p) = (Num (int j) = index)"
  by (simp add: mark_seg_def)

subsection \<open>Activation marks exactly one item\<close>

text \<open>
  C1. For a control with at least one item and an index \<open>i\<close> below the number of
  items, after \<open>setActive(i)\<close> the item \<open>i\<close> carries the marker \<^verbatim>\<open>active\<close> and every
  other item has lost it, in the capabilities tabs of both files and in the contrast
  switcher. The number of items does not change, and the call returns without an
  exception when the elements it writes to are present.
\<close>

theorem C1_setActive_marks_exactly_item_i:
  "(i < length (cap_pills d) \<longrightarrow>
      length (cap_pills (snd (setActive b (Num (int i)) d))) = length (cap_pills d) \<and>
      (\<forall>j<length (cap_pills d).
         pill_active (cap_pills (snd (setActive b (Num (int i)) d)) ! j) = (j = i)) \<and>
      (cap_wrap d \<noteq> None \<and> cap_underline d \<noteq> None \<longrightarrow>
         fst (setActive b (Num (int i)) d) = None)) \<and>
   (i < length (con_pills c) \<longrightarrow>
      length (con_pills (snd (setActive_contrast (Num (int i)) c))) = length (con_pills c) \<and>
      (\<forall>j<length (con_pills c).
         seg_active (con_pills (snd (setActive_contrast (Num (int i)) c)) ! j) = (j = i)) \<and>
      (con_wrap c \<noteq> None \<and> con_thumb c \<noteq> None \<and> panelDo c \<noteq> None \<and> panelDont c \<noteq> None \<longrightarrow>
         fst (setActive_contrast (Num (int i)) c) = None))"
proof (intro conjI impI)
  assume "i < length (cap_pills d)"
  then show "fst (setActive b (Num (int i)) d) = None"
    if "cap_wrap d \<noteq> None \<and> cap_underline d \<noteq> None"
    using that by (auto simp: setActive_valid)
next
  assume "i < length (con_pills c)"
  then show "fst (setActive_contrast (Num (int i)) c) = None"
    if "con_wrap c \<noteq> None \<and> con_thumb c \<noteq> None \<and> panelDo c \<noteq> None \<and> panelDont c \<noteq> None"
    using that by (auto simp: setActive_contrast_valid)
qed (simp_all add: setActive_frame setActive_contrast_frame)

theorem C1_witness:
  "1 < length (cap_pills ex_caps) \<and> 1 < length (con_pills ex_contrast) \<and>
   map pill_active (cap_pills (snd (setActive Main_js (Num 1) ex_caps))) = [False, True, False] \<and>
   map seg_active (con_pills (snd (setActive_contrast (Num 1) ex_contrast))) = [False, True] \<and>
   fst (setActive Main_js (Num 1) ex_caps) = None \<and>
   fst (setActive_contrast (Num 1) ex_contrast) = None"
  using C1_setActive_marks_exactly_item_i [of 1 ex_caps Main_js ex_contrast]
  by (simp add: ex_defs setActive_def setActive_contrast_def moveUnderline_def moveThumb_def
      forEach_idx_def nth_js_def mark_pill_def mark_seg_def mark_panel_def Let_def)

subsection \<open>Panels follow the active index\<close>

text \<open>
  C6. In the contrast switcher (the binary policy), with both panels present, after
  \<open>setActive(i)\<close> the primary panel \<^verbatim>\<open>do-panel\<close> is visible (not hidden) exactly when
  \<open>i = 0\<close> and the secondary panel \<^verbatim>\<open>dont-panel\<close> is visible exactly when \<open>i \<noteq> 0\<close>;
  so \<open>setActive(0)\<close> shows the primary and hides the secondary, and \<open>setActive(1)\<close> does
  the opposite.
\<close>

theorem C6_binary_panels:
  assumes "panelDo c = Some pd" and "panelDont c = Some pn"
  shows "map_option panel_hidden (panelDo (snd (setActive_contrast i c))) = Some (i \<noteq> Num 0) \<and>
         map_option panel_hidden (panelDont (snd (setActive_contrast i c))) = Some (i = Num 0) \<and>
         map_option panel_hidden (panelDo (snd (setActive_contrast (Num 0) c))) = Some False \<and>
         map_option panel_hidden (panelDont (snd (setActive_contrast (Num 0) c))) = Some True \<and>
         map_option panel_hidden (panelDo (snd (setActive_contrast (Num 1) c))) = Some True \<and>
         map_option panel_hidden (panelDont (snd (setActive_contrast (Num 1) c))) = Some False"
  using assms by (simp add: setActive_contrast_panels)

theorem C6_witness:
  "panelDo ex_contrast = Some ex_panel \<and> panelDont ex_contrast = Some ex_panel \<and>
   map_option panel_hidden (panelDo (snd (setActive_contrast (Num 1) ex_contrast))) = Some True \<and>
   map_option panel_hidden (panelDont (snd (setActive_contrast (Num 1) ex_contrast))) = Some False"
  using C6_binary_panels [of ex_contrast ex_panel ex_panel "Num 1"]
  by (simp add: ex_defs)

text \<open>
  C7. In the capabilities tabs (the indexed policy), after \<open>setActive(i)\<close> the panel
  \<open>j\<close> is visible (not hidden) exactly when \<open>j = i\<close>, for every \<open>j\<close> below the number
  of panels; the class \<^verbatim>\<open>is-active\<close> follows, and the number of panels is unchanged.
\<close>

theorem C7_indexed_panels:
  "length (cap_panels (snd (setActive b (Num (int i)) d))) = length (cap_panels d) \<and>
   (\<forall>j<length (cap_panels d).
      (\<not> panel_hidden (cap_panels (snd (setActive b (Num (int i)) d)) ! j)) = (j = i) \<and>
      is_active (cap_panels (snd (setActive b (Num (int i)) d)) ! j) = (j = i))"
  by (simp add: setActive_frame mark_panel_def Let_def)

theorem C7_witness:
  "map panel_hidden (cap_panels (snd (setActive Main_js (Num 1) ex_caps))) = [True, False, True] \<and>
   map panel_hidden (cap_panels (snd (setActive Part_000 (Num 1) ex_caps))) = [True, False, True]"
  using C7_indexed_panels [of Main_js 1 ex_caps] C7_indexed_panels [of Part_000 1 ex_caps]
  by (simp add: ex_defs setActive_frame forEach_idx_def mark_panel_def Let_def)

subsection \<open>Activation is idempotent\<close>

lemma forEach_idx_idem:
  assumes "\<And>i x. f i (f i x) = f i x"
  shows "forEach_idx f (forEach_idx f xs) = forEach_idx f xs"
  by (rule nth_equalityI) (simp_all add: assms)

lemma mark_pill_idem: "mark_pill index i (mark_pill index i p) = mark_pill index i p"
  by (simp add: mark_pill_def Let_def)

lemma mark_panel_idem: "mark_panel index i (mark_panel index i q) = mark_panel index i q"
  by (simp add: mark_panel_def Let_def)

lemma mark_seg_idem: "mark_seg index i (mark_seg index i p) = mark_seg index i p"
  by (simp add: mark_seg_def)

lemma mark_pill_rect [simp]:
  "rect_left (mark_pill index i p) = rect_left p"
  "rect_width (mark_pill index i p) = rect_width p"
  by (simp_all add: mark_pill_def Let_def)

lemma mark_seg_offset [simp]:
  "offsetLeft (mark_seg index i p) = offsetLeft p"
  "offsetWidth (mark_seg index i p) = offsetWidth p"
  by (simp_all add: mark_seg_def)

lemma setActive_idem: "setActive b i (snd (setActive b i d)) = setActive b i d"
  by (simp add: setActive_def moveUnderline_def Let_def nth_js_forEach_idx
      forEach_idx_idem mark_pill_idem mark_panel_idem nat_less_iff
      split: option.splits build.splits jsnum.splits)

lemma setActive_contrast_idem:
  "setActive_contrast i (snd (setActive_contrast i c)) = setActive_contrast i c"
  by (simp add: setActive_contrast_def moveThumb_def Let_def nth_js_forEach_idx
      forEach_idx_idem mark_seg_idem nat_less_iff
      split: option.splits jsnum.splits)

text \<open>
  C9. Calling \<open>setActive(i)\<close> a second time yields the state of the first call: the
  whole record of elements (markers, ARIA flags, tab indices, panels, indicator) and the
  outcome of the call are the same, in the capabilities tabs of both files and in the
  contrast switcher, for every index. The layout is read again by the second call and
  is taken to be the one the first call read.
\<close>

theorem C9_setActive_idempotent:
  "setActive b i (snd (setActive b i d)) = setActive b i d \<and>
   setActive_contrast i (snd (setActive_contrast i c)) = setActive_contrast i c"
  by (simp add: setActive_idem setActive_contrast_idem)

subsection \<open>Initial seeding\<close>

lemma lowest_marked_findIndex:
  assumes "lowest_marked (map P xs) k"
  shows "max 0 (findIndex P xs) = int k"
  using assms unfolding lowest_marked_def
proof (elim disjE conjE)
  assume k: "k < length (map P xs)" "map P xs ! k" "True \<notin> set (take k (map P xs))"
  have "\<not> P (xs ! j)" if "j < k" for j
  proof
    assume "P (xs ! j)"
    with that k(1) have eq: "take k (map P xs) ! j = True" by simp
    from that k(1) have "j < length (take k (map P xs))" by simp
    then have "take k (map P xs) ! j \<in> set (take k (map P xs))" by (rule nth_mem)
    with eq k(3) show False by simp
  qed
  with k(1,2) have "findIndex P xs = int k"
    by (intro findIndex_first) auto
  then show ?thesis by simp
next
  assume "k = 0" and "True \<notin> set (map P xs)"
  then show ?thesis by (simp add: findIndex_none image_iff)
qed

lemma lowest_marked_less: "lowest_marked ms k \<Longrightarrow> ms \<noteq> [] \<Longrightarrow> k < length ms"
  by (auto simp: lowest_marked_def)

lemma initCapabilitiesTabs_run:
  assumes "cap_wrap d \<noteq> None" and "cap_pills d \<noteq> []" and "cap_panels d \<noteq> []"
    and "cap_underline d \<noteq> None"
  shows "initCapabilitiesTabs b d =
           (setActive b (Num (max 0 (findIndex pill_active (cap_pills d)))) d,
            (case b of
               Main_js \<Rightarrow> [On_click, On_mouseenter, On_mouseleave, On_keydown]
             | Part_000 \<Rightarrow> [On_click, On_keydown]) @
            (if fst (setActive b (Num (max 0 (findIndex pill_active (cap_pills d)))) d) = None
             then [On_resize] else []))"
proof -
  from assms obtain w u where "cap_wrap d = Some w" and "cap_underline d = Some u"
    by auto
  with assms(2,3) show ?thesis
    by (cases b) (simp_all add: initCapabilitiesTabs_def Let_def max_def)
qed

lemma initCapabilitiesTabs_seed:
  assumes "cap_wrap d \<noteq> None" and "cap_pills d \<noteq> []" and "cap_panels d \<noteq> []"
    and "cap_underline d \<noteq> None" and "lowest_marked (map pill_active (cap_pills d)) k"
  shows "fst (initCapabilitiesTabs b d) = setActive b (Num (int k)) d"
  using lowest_marked_findIndex [OF assms(5)]
  by (simp add: initCapabilitiesTabs_run [OF assms(1-4)])

lemma initContrastSwitcher_seed:
  assumes "con_wrap c \<noteq> None" and "lowest_marked (map seg_active (con_pills c)) k"
  shows "fst (initContrastSwitcher c) = setActive_contrast (Num (int k)) c"
proof -
  from assms(2) have "max 0 (findIndex seg_active (con_pills c)) = int k"
    by (rule lowest_marked_findIndex)
  then show ?thesis
    using assms(1) by (auto simp: initContrastSwitcher_def Let_def)
qed

text \<open>
  C10. Whatever markers the markup carries, also several of them, initialization is one
  call of \<open>setActive\<close> at the index of the lowest marked item, or at 0 when no item is
  marked. In the capabilities tabs of both files (with wrap, pills, panels and underline
  present, so that the guard lets the function run) the call returns without an
  exception, the resize listener is registered, and afterwards item \<open>k\<close> alone is
  active. In the contrast switcher (with the wrap present) the items are marked the
  same way.
\<close>

theorem C10_initial_seeding:
  "(cap_wrap d \<noteq> None \<and> cap_pills d \<noteq> [] \<and> cap_panels d \<noteq> [] \<and> cap_underline d \<noteq> None \<and>
    lowest_marked (map pill_active (cap_pills d)) k \<longrightarrow>
      fst (initCapabilitiesTabs b d) = setActive b (Num (int k)) d \<and>
      fst (fst (initCapabilitiesTabs b d)) = None \<and>
      On_resize \<in> set (snd (initCapabilitiesTabs b d)) \<and>
      (\<forall>j<length (cap_pills d).
         pill_active (cap_pills (snd (fst (initCapabilitiesTabs b d))) ! j) = (j = k))) \<and>
   (con_wrap c \<noteq> None \<and> lowest_marked (map seg_active (con_pills c)) k \<longrightarrow>
      fst (initContrastSwitcher c) = setActive_contrast (Num (int k)) c \<and>
      (\<forall>j<length (con_pills c).
         seg_active (con_pills (snd (fst (initContrastSwitcher c))) ! j) = (j = k)))"
proof (intro conjI impI; elim conjE)
  assume g: "cap_wrap d \<noteq> None" "cap_pills d \<noteq> []" "cap_panels d \<noteq> []"
    "cap_underline d \<noteq> None" and k: "lowest_marked (map pill_active (cap_pills d)) k"
  then show seed: "fst (initCapabilitiesTabs b d) = setActive b (Num (int k)) d"
    by (rule initCapabilitiesTabs_seed)
  from k g(2) have "k < length (cap_pills d)"
    using lowest_marked_less by fastforce
  with g(1,4) have ok: "fst (setActive b (Num (int k)) d) = None"
    by (auto simp: setActive_valid)
  with seed show "fst (fst (initCapabilitiesTabs b d)) = None" by simp
  from ok lowest_marked_findIndex [OF k]
  show "On_resize \<in> set (snd (initCapabilitiesTabs b d))"
    by (simp add: initCapabilitiesTabs_run [OF g])
  from seed show "\<forall>j<length (cap_pills d).
      pill_active (cap_pills (snd (fst (initCapabilitiesTabs b d))) ! j) = (j = k)"
    by (simp add: setActive_frame)
next
  assume "con_wrap c \<noteq> None" and "lowest_marked (map seg_active (con_pills c)) k"
  then show seed: "fst (initContrastSwitcher c) = setActive_contrast (Num (int k)) c"
    by (rule initContrastSwitcher_seed)
  then show "\<forall>j<length (con_pills c).
      seg_active (con_pills (snd (fst (initContrastSwitcher c))) ! j) = (j = k)"
    by (simp add: setActive_contrast_frame)
qed

theorem C10_witness:
  "lowest_marked (map pill_active (cap_pills ex_caps)) 0 \<and>
   lowest_marked (map seg_active (con_pills ex_contrast)) 0 \<and>
   map pill_active (cap_pills ex_caps) = [True, False, True] \<and>
   map pill_active (cap_pills (snd (fst (initCapabilitiesTabs Main_js ex_caps)))) =
     [True, False, False] \<and>
   map pill_active (cap_pills (snd (fst (initCapabilitiesTabs Part_000 ex_caps)))) =
     [True, False, False] \<and>
   map seg_active (con_pills (snd (fst (initContrastSwitcher ex_contrast)))) = [True, False]"
  using C10_initial_seeding [of ex_caps 0 Main_js ex_contrast]
    C10_initial_seeding [of ex_caps 0 Part_000 ex_contrast]
  by (simp add: ex_defs lowest_marked_def setActive_frame setActive_contrast_frame
      forEach_idx_def)

subsection \<open>Hover preview\<close>

lemma cap_query_active_first:
  assumes "cap_wrap d = Some w" and "k < length (cap_pills d)"
    and "pill_active (cap_pills d ! k)" and "\<forall>j<k. \<not> pill_active (cap_pills d ! j)"
  shows "cap_query_active d = Inr (Some (cap_pills d ! k))"
  using assms by (simp add: cap_query_active_def find_first)

lemma cap_mouseenter_Some:
  assumes "cap_wrap d = Some w" and "cap_underline d = Some u"
  shows "cap_mouseenter (Some p) d =
           (None, d\<lparr>cap_underline :=
              Some (u\<lparr>style_width := Some (rect_width p),
                       style_translateX := Some (rect_left p - c_rect_left w + scrollLeft w)\<rparr>)\<rparr>)"
  using assms by (simp add: cap_mouseenter_def moveUnderline_Some)

lemma cap_mouseleave_first:
  assumes "cap_wrap d = Some w" and "cap_underline d = Some u" and "k < length (cap_pills d)"
    and "pill_active (cap_pills d ! k)" and "\<forall>j<k. \<not> pill_active (cap_pills d ! j)"
  shows "cap_mouseleave d =
           (None, d\<lparr>cap_underline :=
              Some (u\<lparr>style_width := Some (rect_width (cap_pills d ! k)),
                       style_translateX :=
                         Some (rect_left (cap_pills d ! k) - c_rect_left w + scrollLeft w)\<rparr>)\<rparr>)"
  using assms
  by (simp add: cap_mouseleave_def cap_query_active_first [OF assms(1,3,4,5)] moveUnderline_Some)

text \<open>
  C8. The hover listeners exist in the capabilities tabs of \<^verbatim>\<open>main.js\<close>. With the wrap
  and the underline present and item \<open>k\<close> the active one, pointer-enter on any item \<open>j\<close>
  returns without an exception and changes nothing but the underline, which takes the
  geometry of item \<open>j\<close>: the markers of the items, the active index read back by
  \<open>findIndex\<close>, the panels and the focus are the ones before. Pointer-leave then writes
  the geometry of item \<open>k\<close> to the underline and changes nothing else; when the underline
  had the geometry of item \<open>k\<close> before the preview, the whole state is the one before.
\<close>

theorem C8_hover_preview:
  assumes "cap_wrap d = Some w" and "cap_underline d = Some u"
    and "j < length (cap_pills d)" and "k < length (cap_pills d)"
    and "\<forall>m<length (cap_pills d). pill_active (cap_pills d ! m) = (m = k)"
  shows "cap_mouseenter (Some (cap_pills d ! j)) d =
           (None, d\<lparr>cap_underline :=
              Some (u\<lparr>style_width := Some (rect_width (cap_pills d ! j)),
                       style_translateX :=
                         Some (rect_left (cap_pills d ! j) - c_rect_left w + scrollLeft w)\<rparr>)\<rparr>) \<and>
         cap_pills (snd (cap_mouseenter (Some (cap_pills d ! j)) d)) = cap_pills d \<and>
         findIndex pill_active (cap_pills (snd (cap_mouseenter (Some (cap_pills d ! j)) d))) = int k \<and>
         cap_panels (snd (cap_mouseenter (Some (cap_pills d ! j)) d)) = cap_panels d \<and>
         cap_focus (snd (cap_mouseenter (Some (cap_pills d ! j)) d)) = cap_focus d \<and>
         cap_mouseleave (snd (cap_mouseenter (Some (cap_pills d ! j)) d)) =
           (None, d\<lparr>cap_underline :=
              Some (u\<lparr>style_width := Some (rect_width (cap_pills d ! k)),
                       style_translateX :=
                         Some (rect_left (cap_pills d ! k) - c_rect_left w + scrollLeft w)\<rparr>)\<rparr>) \<and>
         (style_width u = Some (rect_width (cap_pills d ! k)) \<and>
          style_translateX u = Some (rect_left (cap_pills d ! k) - c_rect_left w + scrollLeft w) \<longrightarrow>
            snd (cap_mouseleave (snd (cap_mouseenter (Some (cap_pills d ! j)) d))) = d)"
proof -
  let ?p = "cap_pills d ! j"
  let ?u1 = "u\<lparr>style_width := Some (rect_width ?p),
               style_translateX := Some (rect_left ?p - c_rect_left w + scrollLeft w)\<rparr>"
  let ?d1 = "d\<lparr>cap_underline := Some ?u1\<rparr>"
  let ?uk = "u\<lparr>style_width := Some (rect_width (cap_pills d ! k)),
               style_translateX :=
                 Some (rect_left (cap_pills d ! k) - c_rect_left w + scrollLeft w)\<rparr>"
  have first: "pill_active (cap_pills d ! k)" "\<forall>m<k. \<not> pill_active (cap_pills d ! m)"
    using assms(4,5) by auto
  have enter: "cap_mouseenter (Some ?p) d = (None, ?d1)"
    using assms(1,2) by (rule cap_mouseenter_Some)
  have idx: "findIndex pill_active (cap_pills d) = int k"
    using assms(4) first by (rule findIndex_first)
  have "cap_mouseleave ?d1 = (None, ?d1\<lparr>cap_underline :=
          Some (?u1\<lparr>style_width := Some (rect_width (cap_pills ?d1 ! k)),
                     style_translateX :=
                       Some (rect_left (cap_pills ?d1 ! k) - c_rect_left w + scrollLeft w)\<rparr>)\<rparr>)"
    using assms(1,4) first by (intro cap_mouseleave_first) simp_all
  then have leave: "cap_mouseleave ?d1 = (None, d\<lparr>cap_underline := Some ?uk\<rparr>)"
    by simp
  have same: "d\<lparr>cap_underline := Some ?uk\<rparr> = d"
    if "style_width u = Some (rect_width (cap_pills d ! k))"
      and "style_translateX u = Some (rect_left (cap_pills d ! k) - c_rect_left w + scrollLeft w)"
  proof -
    from that have "?uk = u" by simp
    with assms(2) show ?thesis by simp
  qed
  from enter idx leave same show ?thesis by simp
qed

theorem C8_witness:
  "cap_wrap (snd (setActive Main_js (Num 1) ex_caps)) =
     Some \<lparr>c_rect_left = 0, scrollLeft = 0, paddingLeft = 8\<rparr> \<and>
   cap_underline (snd (setActive Main_js (Num 1) ex_caps)) =
     Some \<lparr>style_width = Some 60, style_translateX = Some 60\<rparr> \<and>
   map pill_active (cap_pills (snd (setActive Main_js (Num 1) ex_caps))) = [False, True, False] \<and>
   cap_underline (snd (cap_mouseenter (Some (cap_pills (snd (setActive Main_js (Num 1) ex_caps)) ! 2))
                        (snd (setActive Main_js (Num 1) ex_caps)))) =
     Some \<lparr>style_width = Some 40, style_translateX = Some 120\<rparr> \<and>
   snd (cap_mouseleave
          (snd (cap_mouseenter (Some (cap_pills (snd (setActive Main_js (Num 1) ex_caps)) ! 2))
                  (snd (setActive Main_js (Num 1) ex_caps))))) =
     snd (setActive Main_js (Num 1) ex_caps)"
proof -
  let ?d = "snd (setActive Main_js (Num 1) ex_caps)"
  have d: "?d =
      \<lparr>cap_wrap = Some \<lparr>c_rect_left = 0, scrollLeft = 0, paddingLeft = 8\<rparr>,
       cap_pills =
         [\<lparr>pill_active = False, aria_selected = Some ''false'', tabIndex = - 1,
           rect_left = 8, rect_width = 52\<rparr>,
          \<lparr>pill_active = True, aria_selected = Some ''true'', tabIndex = 0,
           rect_left = 60, rect_width = 60\<rparr>,
          \<lparr>pill_active = False, aria_selected = Some ''false'', tabIndex = - 1,
           rect_left = 120, rect_width = 40\<rparr>],
       cap_underline = Some \<lparr>style_width = Some 60, style_translateX = Some 60\<rparr>,
       cap_panels =
         [\<lparr>panel_hidden = True, is_active = False\<rparr>,
          \<lparr>panel_hidden = False, is_active = True\<rparr>,
          \<lparr>panel_hidden = True, is_active = False\<rparr>],
       cap_focus = Some 0\<rparr>"
    by (simp add: ex_defs setActive_def moveUnderline_def forEach_idx_def nth_js_def
        mark_pill_def mark_panel_def String_of_bool_def Let_def)
  have h: "\<forall>m<length (cap_pills ?d). pill_active (cap_pills ?d ! m) = (m = 1)"
    unfolding d by (simp add: All_less_Suc eval_nat_numeral)
  show ?thesis
    using C8_hover_preview [of ?d "\<lparr>c_rect_left = 0, scrollLeft = 0, paddingLeft = 8\<rparr>"
        "\<lparr>style_width = Some 60, style_translateX = Some 60\<rparr>" 2 1, OF _ _ _ _ h]
    unfolding d
    by (simp add: cap_mouseenter_def cap_mouseleave_def cap_query_active_def moveUnderline_def)
qed

subsection \<open>Keyboard navigation\<close>

lemma js_rem_next:
  assumes "0 < n"
  shows "js_rem (int k + 1) (int n) = Num (int ((k + 1) mod n))"
proof -
  have "js_rem (int k + 1) (int n) = Num ((int k + 1) mod int n)"
    using assms by (intro js_rem_mod) simp_all
  moreover have "int ((k + 1) mod n) = (int k + 1) mod int n"
    by (simp add: zmod_int add.commute)
  ultimately show ?thesis by simp
qed

lemma js_rem_previous:
  assumes "0 < n"
  shows "js_rem (int k - 1 + int n) (int n) = Num (int ((k + n - 1) mod n))"
proof -
  from assms have eq: "int k - 1 + int n = int (k + n - 1)" by simp
  have "js_rem (int (k + n - 1)) (int n) = Num (int (k + n - 1) mod int n)"
    using assms by (intro js_rem_mod) simp_all
  then show ?thesis unfolding eq by (simp add: zmod_int)
qed

lemma and_then_simps [simp]:
  "and_then (None, d) f = f d"
  "and_then (Some e, d) f = (Some e, d)"
  by (simp_all add: and_then_def)

lemma setActive_then_focus:
  assumes "m < length (cap_pills d)" and "cap_wrap d = Some w" and "cap_underline d = Some u"
  shows "and_then (setActive b (Num (int m)) d) (focus_pill (Num (int m))) =
           (None, (snd (setActive b (Num (int m)) d))\<lparr>cap_focus := Some m\<rparr>)"
  using assms by (simp add: setActive_valid focus_pill_def)

lemma cap_keydown_other:
  assumes "key \<noteq> ''ArrowRight''" and "key \<noteq> ''ArrowLeft''"
  shows "cap_keydown b key d = ((None, d), False)"
  using assms by (simp add: cap_keydown_def Let_def)

lemma cap_keydown_right:
  assumes "findIndex pill_active (cap_pills d) = int k" and "cap_pills d \<noteq> []"
  shows "cap_keydown b ''ArrowRight'' d =
           (and_then (setActive b (Num (int ((k + 1) mod length (cap_pills d)))) d)
                     (focus_pill (Num (int ((k + 1) mod length (cap_pills d))))), True)"
  using assms by (simp add: cap_keydown_def Let_def js_rem_next)

lemma cap_keydown_left:
  assumes "findIndex pill_active (cap_pills d) = int k" and "cap_pills d \<noteq> []"
  shows "cap_keydown b ''ArrowLeft'' d =
           (and_then (setActive b (Num (int ((k + length (cap_pills d) - 1) mod length (cap_pills d)))) d)
                     (focus_pill (Num (int ((k + length (cap_pills d) - 1) mod length (cap_pills d))))),
            True)"
  using assms by (simp add: cap_keydown_def Let_def js_rem_previous)

lemma con_keydown_other:
  assumes "key \<noteq> ''ArrowRight''" and "key \<noteq> ''ArrowLeft''"
  shows "con_keydown key c = ((None, c), False)"
  using assms by (simp add: con_keydown_def Let_def)

lemma con_keydown_right:
  assumes "findIndex seg_active (con_pills c) = int k" and "con_pills c \<noteq> []"
  shows "con_keydown ''ArrowRight'' c =
           (setActive_contrast (Num (int ((k + 1) mod length (con_pills c)))) c, True)"
  using assms by (simp add: con_keydown_def Let_def js_rem_next)

lemma con_keydown_left:
  assumes "findIndex seg_active (con_pills c) = int k" and "con_pills c \<noteq> []"
  shows "con_keydown ''ArrowLeft'' c =
           (setActive_contrast (Num (int ((k + length (con_pills c) - 1) mod length (con_pills c)))) c,
            True)"
  using assms by (simp add: con_keydown_def Let_def js_rem_previous)

text \<open>
  C3, as the claim states it, fails in the contrast switcher: its keydown listener calls
  \<open>setActive\<close> and never \<^verbatim>\<open>focus()\<close>. With segment 0 active and focused, the key
  \<^verbatim>\<open>ArrowRight\<close> is handled without an exception and makes segment 1 the active one,
  and the focus is still on segment 0.
\<close>

theorem C3_counterexample:
  "fst (con_keydown ''ArrowRight'' ex_contrast) =
     setActive_contrast (Num 1) ex_contrast \<and>
   fst (fst (con_keydown ''ArrowRight'' ex_contrast)) = None \<and>
   map seg_active (con_pills (snd (fst (con_keydown ''ArrowRight'' ex_contrast)))) = [False, True] \<and>
   con_focus (snd (fst (con_keydown ''ArrowRight'' ex_contrast))) = Some 0 \<and>
   con_focus (snd (fst (con_keydown ''ArrowRight'' ex_contrast))) \<noteq> Some 1"
  by (simp add: ex_defs con_keydown_def setActive_contrast_def moveThumb_def forEach_idx_def
      nth_js_def mark_seg_def findIndex_def js_rem_def Let_def)

text \<open>
  C3, amended. Let item \<open>k\<close> be the active one (the first that carries the marker) of a
  control with \<open>N\<close> items. Only \<^verbatim>\<open>ArrowRight\<close> and \<^verbatim>\<open>ArrowLeft\<close> are handled; any other
  key leaves the state as it is, calls no \<^verbatim>\<open>preventDefault\<close> and throws nothing. In the
  capabilities tabs of both files (wrap and underline present) \<^verbatim>\<open>ArrowRight\<close> is
  \<open>setActive((k + 1) mod N)\<close> and \<^verbatim>\<open>ArrowLeft\<close> is \<open>setActive((k - 1 + N) mod N)\<close>, each
  followed by the focus moving to the newly active pill, without an exception. In the
  contrast switcher the two keys are the same calls of \<open>setActive\<close> and the focus stays
  where it was.
\<close>

theorem C3_keyboard_navigation:
  "(cap_wrap d \<noteq> None \<and> cap_underline d \<noteq> None \<and> k < length (cap_pills d) \<and>
    pill_active (cap_pills d ! k) \<and> (\<forall>j<k. \<not> pill_active (cap_pills d ! j)) \<longrightarrow>
      cap_keydown b ''ArrowRight'' d =
        ((None, (snd (setActive b (Num (int ((k + 1) mod length (cap_pills d)))) d))
                  \<lparr>cap_focus := Some ((k + 1) mod length (cap_pills d))\<rparr>), True) \<and>
      cap_keydown b ''ArrowLeft'' d =
        ((None, (snd (setActive b (Num (int ((k + length (cap_pills d) - 1) mod length (cap_pills d)))) d))
                  \<lparr>cap_focus := Some ((k + length (cap_pills d) - 1) mod length (cap_pills d))\<rparr>),
         True)) \<and>
   (k < length (con_pills c) \<and>
    seg_active (con_pills c ! k) \<and> (\<forall>j<k. \<not> seg_active (con_pills c ! j)) \<longrightarrow>
      con_keydown ''ArrowRight'' c =
        (setActive_contrast (Num (int ((k + 1) mod length (con_pills c)))) c, True) \<and>
      con_keydown ''ArrowLeft'' c =
        (setActive_contrast (Num (int ((k + length (con_pills c) - 1) mod length (con_pills c)))) c,
         True) \<and>
      con_focus (snd (fst (con_keydown ''ArrowRight'' c))) = con_focus c \<and>
      con_focus (snd (fst (con_keydown ''ArrowLeft'' c))) = con_focus c) \<and>
   (key \<noteq> ''ArrowRight'' \<and> key \<noteq> ''ArrowLeft'' \<longrightarrow>
      cap_keydown b key d = ((None, d), False) \<and> con_keydown key c = ((None, c), False))"
proof (intro conjI impI; elim conjE)
  assume g: "cap_wrap d \<noteq> None" "cap_underline d \<noteq> None"
    and k: "k < length (cap_pills d)" "pill_active (cap_pills d ! k)"
      "\<forall>j<k. \<not> pill_active (cap_pills d ! j)"
  from g obtain w u where wu: "cap_wrap d = Some w" "cap_underline d = Some u" by auto
  from k have curr: "findIndex pill_active (cap_pills d) = int k" by (rule findIndex_first)
  from k(1) have ne: "cap_pills d \<noteq> []" by auto
  let ?n = "length (cap_pills d)"
  from ne have "0 < ?n" by simp
  then have "(k + 1) mod ?n < ?n" and "(k + ?n - 1) mod ?n < ?n"
    by (rule mod_less_divisor)+
  then show "cap_keydown b ''ArrowRight'' d =
        ((None, (snd (setActive b (Num (int ((k + 1) mod ?n))) d))
                  \<lparr>cap_focus := Some ((k + 1) mod ?n)\<rparr>), True)"
    and "cap_keydown b ''ArrowLeft'' d =
        ((None, (snd (setActive b (Num (int ((k + ?n - 1) mod ?n))) d))
                  \<lparr>cap_focus := Some ((k + ?n - 1) mod ?n)\<rparr>), True)"
    using wu
    by (simp_all only: cap_keydown_right [OF curr ne] cap_keydown_left [OF curr ne]
        setActive_then_focus)
next
  assume k: "k < length (con_pills c)" "seg_active (con_pills c ! k)"
    "\<forall>j<k. \<not> seg_active (con_pills c ! j)"
  from k have curr: "findIndex seg_active (con_pills c) = int k" by (rule findIndex_first)
  from k(1) have ne: "con_pills c \<noteq> []" by auto
  show "con_keydown ''ArrowRight'' c =
        (setActive_contrast (Num (int ((k + 1) mod length (con_pills c)))) c, True)"
    using curr ne by (rule con_keydown_right)
  show "con_keydown ''ArrowLeft'' c =
        (setActive_contrast (Num (int ((k + length (con_pills c) - 1) mod length (con_pills c)))) c,
         True)"
    using curr ne by (rule con_keydown_left)
  show "con_focus (snd (fst (con_keydown ''ArrowRight'' c))) = con_focus c"
    by (simp add: con_keydown_right [OF curr ne] setActive_contrast_frame)
  show "con_focus (snd (fst (con_keydown ''ArrowLeft'' c))) = con_focus c"
    by (simp add: con_keydown_left [OF curr ne] setActive_contrast_frame)
next
  assume "key \<noteq> ''ArrowRight''" and "key \<noteq> ''ArrowLeft''"
  then show "cap_keydown b key d = ((None, d), False)"
    and "con_keydown key c = ((None, c), False)"
    by (simp_all add: cap_keydown_other con_keydown_other)
qed

theorem C3_witness:
  "pill_active (cap_pills ex_caps ! 0) \<and> seg_active (con_pills ex_contrast ! 0) \<and>
   map pill_active (cap_pills (snd (fst (cap_keydown Main_js ''ArrowRight'' ex_caps)))) =
     [False, True, False] \<and>
   cap_focus (snd (fst (cap_keydown Main_js ''ArrowRight'' ex_caps))) = Some 1 \<and>
   map pill_active (cap_pills (snd (fst (cap_keydown Main_js ''ArrowLeft'' ex_caps)))) =
     [False, False, True] \<and>
   cap_focus (snd (fst (cap_keydown Main_js ''ArrowLeft'' ex_caps))) = Some 2 \<and>
   map seg_active (con_pills (snd (fst (con_keydown ''ArrowLeft'' ex_contrast)))) = [False, True] \<and>
   con_focus (snd (fst (con_keydown ''ArrowLeft'' ex_contrast))) = Some 0 \<and>
   cap_keydown Main_js ''Enter'' ex_caps = ((None, ex_caps), False) \<and>
   con_keydown ''Enter'' ex_contrast = ((None, ex_contrast), False)"
  using C3_keyboard_navigation [of ex_caps 0 Main_js ex_contrast "''Enter''"]
  by (simp add: ex_defs setActive_frame setActive_contrast_frame forEach_idx_def)

subsection \<open>Indicator geometry\<close>

lemma cap_resize_first:
  assumes "cap_wrap d = Some w" and "cap_underline d = Some u" and "k < length (cap_pills d)"
    and "pill_active (cap_pills d ! k)" and "\<forall>j<k. \<not> pill_active (cap_pills d ! j)"
  shows "cap_resize b d =
           (None, d\<lparr>cap_underline :=
              Some (u\<lparr>style_width := Some (rect_width (cap_pills d ! k)),
                       style_translateX :=
                         Some (rect_left (cap_pills d ! k) - c_rect_left w + scrollLeft w)\<rparr>)\<rparr>)"
  using assms
  by (simp add: cap_resize_def cap_query_active_first [OF assms(1,3,4,5)] moveUnderline_Some)

lemma con_resize_first:
  assumes "con_wrap c = Some w" and "con_thumb c = Some t" and "k < length (con_pills c)"
    and "seg_active (con_pills c ! k)" and "\<forall>j<k. \<not> seg_active (con_pills c ! j)"
  shows "con_resize c =
           (None, c\<lparr>con_thumb :=
              Some (t\<lparr>style_width := Some (offsetWidth (con_pills c ! k)),
                       style_translateX := Some (offsetLeft (con_pills c ! k) - paddingLeft w)\<rparr>)\<rparr>)"
  using assms
  by (simp add: con_resize_def find_first [OF assms(3,4,5)] moveThumb_Some)

text \<open>
  C5, as the claim states it, fails in the capabilities tabs: \<^verbatim>\<open>moveUnderline\<close> adds the
  scroll offset and never reads the left padding. In the example the strip has a left
  padding of 8 pixels and pill 0 starts at its content origin, so the offset of the
  claim is 0, and \<open>setActive(0)\<close> writes 8.
\<close>

theorem C5_counterexample:
  "cap_wrap ex_caps = Some \<lparr>c_rect_left = 0, scrollLeft = 0, paddingLeft = 8\<rparr> \<and>
   spec_offset (rect_left (cap_pills ex_caps ! 0))
     \<lparr>c_rect_left = 0, scrollLeft = 0, paddingLeft = 8\<rparr> = 0 \<and>
   cap_underline (snd (setActive Main_js (Num 0) ex_caps)) =
     Some \<lparr>style_width = Some 52, style_translateX = Some 8\<rparr> \<and>
   map_option style_translateX (cap_underline (snd (setActive Main_js (Num 0) ex_caps))) \<noteq>
     Some (Some (spec_offset (rect_left (cap_pills ex_caps ! 0))
                   \<lparr>c_rect_left = 0, scrollLeft = 0, paddingLeft = 8\<rparr>))"
  by (simp add: ex_defs spec_offset_def setActive_def moveUnderline_def forEach_idx_def
      nth_js_def mark_pill_def mark_panel_def Let_def)

text \<open>
  C5, amended. With the elements present and \<open>i\<close> below the number of items,
  \<open>setActive(i)\<close> writes to the indicator the width of item \<open>i\<close> and an offset computed
  from item \<open>i\<close>, and the resize listener writes the same for the active item. In the
  capabilities tabs of both files the width is the width of the bounding box and the
  offset is the left edge of the bounding box of the item, minus the left edge of the
  bounding box of the container, plus the scroll offset of the container; the left
  padding is not read. In the contrast switcher the width is \<^verbatim>\<open>offsetWidth\<close> and the
  offset is \<^verbatim>\<open>offsetLeft\<close> minus the left padding of the container; the scroll offset is
  not read.
\<close>

theorem C5_indicator_geometry:
  "(cap_wrap d = Some w \<and> cap_underline d = Some u \<and> i < length (cap_pills d) \<longrightarrow>
      cap_underline (snd (setActive b (Num (int i)) d)) =
        Some (u\<lparr>style_width := Some (rect_width (cap_pills d ! i)),
                 style_translateX :=
                   Some (rect_left (cap_pills d ! i) - c_rect_left w + scrollLeft w)\<rparr>) \<and>
      (pill_active (cap_pills d ! i) \<and> (\<forall>j<i. \<not> pill_active (cap_pills d ! j)) \<longrightarrow>
         cap_underline (snd (cap_resize b d)) =
           Some (u\<lparr>style_width := Some (rect_width (cap_pills d ! i)),
                    style_translateX :=
                      Some (rect_left (cap_pills d ! i) - c_rect_left w + scrollLeft w)\<rparr>))) \<and>
   (con_wrap c = Some v \<and> con_thumb c = Some t \<and> panelDo c \<noteq> None \<and> panelDont c \<noteq> None \<and>
    i < length (con_pills c) \<longrightarrow>
      con_thumb (snd (setActive_contrast (Num (int i)) c)) =
        Some (t\<lparr>style_width := Some (offsetWidth (con_pills c ! i)),
                 style_translateX := Some (offsetLeft (con_pills c ! i) - paddingLeft v)\<rparr>) \<and>
      (seg_active (con_pills c ! i) \<and> (\<forall>j<i. \<not> seg_active (con_pills c ! j)) \<longrightarrow>
         con_thumb (snd (con_resize c)) =
           Some (t\<lparr>style_width := Some (offsetWidth (con_pills c ! i)),
                    style_translateX := Some (offsetLeft (con_pills c ! i) - paddingLeft v)\<rparr>)))"
proof (intro conjI impI; elim conjE)
  assume g: "cap_wrap d = Some w" "cap_underline d = Some u" "i < length (cap_pills d)"
  then show "cap_underline (snd (setActive b (Num (int i)) d)) =
        Some (u\<lparr>style_width := Some (rect_width (cap_pills d ! i)),
                 style_translateX :=
                   Some (rect_left (cap_pills d ! i) - c_rect_left w + scrollLeft w)\<rparr>)"
    by (simp add: setActive_valid)
  assume "pill_active (cap_pills d ! i)" and "\<forall>j<i. \<not> pill_active (cap_pills d ! j)"
  with g show "cap_underline (snd (cap_resize b d)) =
        Some (u\<lparr>style_width := Some (rect_width (cap_pills d ! i)),
                 style_translateX :=
                   Some (rect_left (cap_pills d ! i) - c_rect_left w + scrollLeft w)\<rparr>)"
    by (simp add: cap_resize_first)
next
  assume g: "con_wrap c = Some v" "con_thumb c = Some t" "i < length (con_pills c)"
    and p: "panelDo c \<noteq> None" "panelDont c \<noteq> None"
  from p obtain pd pn where "panelDo c = Some pd" and "panelDont c = Some pn" by auto
  with g show "con_thumb (snd (setActive_contrast (Num (int i)) c)) =
        Some (t\<lparr>style_width := Some (offsetWidth (con_pills c ! i)),
                 style_translateX := Some (offsetLeft (con_pills c ! i) - paddingLeft v)\<rparr>)"
    by (simp add: setActive_contrast_valid)
  assume "seg_active (con_pills c ! i)" and "\<forall>j<i. \<not> seg_active (con_pills c ! j)"
  with g show "con_thumb (snd (con_resize c)) =
        Some (t\<lparr>style_width := Some (offsetWidth (con_pills c ! i)),
                 style_translateX := Some (offsetLeft (con_pills c ! i) - paddingLeft v)\<rparr>)"
    by (simp add: con_resize_first)
qed

theorem C5_witness:
  "cap_wrap ex_caps = Some \<lparr>c_rect_left = 0, scrollLeft = 0, paddingLeft = 8\<rparr> \<and>
   con_wrap ex_contrast = Some \<lparr>c_rect_left = 0, scrollLeft = 0, paddingLeft = 4\<rparr> \<and>
   cap_underline ex_caps = Some ex_indicator \<and> con_thumb ex_contrast = Some ex_indicator \<and>
   pill_active (cap_pills ex_caps ! 0) \<and> seg_active (con_pills ex_contrast ! 0) \<and>
   cap_underline (snd (setActive Part_000 (Num 0) ex_caps)) =
     Some \<lparr>style_width = Some 52, style_translateX = Some 8\<rparr> \<and>
   cap_underline (snd (cap_resize Part_000 ex_caps)) =
     Some \<lparr>style_width = Some 52, style_translateX = Some 8\<rparr> \<and>
   con_thumb (snd (setActive_contrast (Num 0) ex_contrast)) =
     Some \<lparr>style_width = Some 90, style_translateX = Some 0\<rparr> \<and>
   con_thumb (snd (con_resize ex_contrast)) =
     Some \<lparr>style_width = Some 90, style_translateX = Some 0\<rparr>"
  using C5_indicator_geometry [of ex_caps "\<lparr>c_rect_left = 0, scrollLeft = 0, paddingLeft = 8\<rparr>"
      ex_indicator 0 Part_000 ex_contrast
      "\<lparr>c_rect_left = 0, scrollLeft = 0, paddingLeft = 4\<rparr>" ex_indicator]
  by (simp add: ex_defs)

subsection \<open>Missing elements\<close>

lemma initCapabilitiesTabs_guard:
  assumes "cap_wrap d = None \<or> cap_pills d = [] \<or> cap_panels d = [] \<or> cap_underline d = None"
  shows "initCapabilitiesTabs b d = ((None, d), [])"
  using assms by (auto simp: initCapabilitiesTabs_def)

lemma cap_dispatch_no_listener: "cap_dispatch b [] ev d = (None, d)"
  by (simp add: cap_dispatch_def split: event.splits)

lemma initContrastSwitcher_guard:
  assumes "con_wrap c = None"
  shows "initContrastSwitcher c = ((None, c), [])"
  using assms by (simp add: initContrastSwitcher_def)

lemma con_dispatch_no_listener: "con_dispatch [] ev c = (None, c)"
  by (simp add: con_dispatch_def split: event.splits)

text \<open>
  C2. Construction against markup where the container, the items or the indicator is
  missing writes nothing, throws nothing and leaves a control on which no later event
  has an effect. This holds in the capabilities tabs, by the lemmas above: the function
  returns at its guard and registers no listener. The contrast switcher tests the wrap
  only, and the property fails there. With two segments, both panels and no
  \<^verbatim>\<open>.seg-underline\<close>, its construction has already hidden \<^verbatim>\<open>dont-panel\<close> and
  registered the click and keydown listeners when \<^verbatim>\<open>moveThumb\<close> throws \<open>TypeError\<close> at
  \<^verbatim>\<open>thumb.style\<close>; a later click on segment 1 marks it, swaps the panels and throws
  again. With the thumb present and no segment, the construction hides \<^verbatim>\<open>dont-panel\<close>
  and registers all three listeners, and a later \<^verbatim>\<open>ArrowRight\<close> calls \<open>setActive(NaN)\<close>,
  which hides \<^verbatim>\<open>do-panel\<close> and shows \<^verbatim>\<open>dont-panel\<close>.
\<close>

theorem C2_contrast_missing_elements:
  "initContrastSwitcher (ex_contrast\<lparr>con_thumb := None\<rparr>) =
     ((Some TypeError,
       ex_contrast\<lparr>con_thumb := None,
                   panelDont := Some \<lparr>panel_hidden = True, is_active = False\<rparr>\<rparr>),
      [On_click, On_keydown]) \<and>
   snd (fst (initContrastSwitcher (ex_contrast\<lparr>con_thumb := None\<rparr>))) \<noteq>
     ex_contrast\<lparr>con_thumb := None\<rparr> \<and>
   fst (con_dispatch [On_click, On_keydown] (Click 1)
          (snd (fst (initContrastSwitcher (ex_contrast\<lparr>con_thumb := None\<rparr>))))) =
     Some TypeError \<and>
   map seg_active (con_pills (snd (con_dispatch [On_click, On_keydown] (Click 1)
          (snd (fst (initContrastSwitcher (ex_contrast\<lparr>con_thumb := None\<rparr>))))))) =
     [False, True] \<and>
   initContrastSwitcher (ex_contrast\<lparr>con_pills := []\<rparr>) =
     ((None,
       ex_contrast\<lparr>con_pills := [],
                   panelDont := Some \<lparr>panel_hidden = True, is_active = False\<rparr>\<rparr>),
      [On_click, On_keydown, On_resize]) \<and>
   con_dispatch [On_click, On_keydown, On_resize] (Keydown ''ArrowRight'')
       (snd (fst (initContrastSwitcher (ex_contrast\<lparr>con_pills := []\<rparr>)))) =
     (None,
      ex_contrast\<lparr>con_pills := [],
                  panelDo := Some \<lparr>panel_hidden = True, is_active = False\<rparr>,
                  panelDont := Some \<lparr>panel_hidden = False, is_active = False\<rparr>\<rparr>)"
  by (simp add: ex_defs initContrastSwitcher_def con_dispatch_def con_click_def con_keydown_def
      setActive_contrast_def moveThumb_def forEach_idx_def nth_js_def mark_seg_def
      findIndex_def js_rem_def Let_def)

text \<open>
  C4, as the claim states it, fails in the capabilities tabs: the guard of the function
  tests the panels too. With three pills, the underline and no panel, the function
  returns at the guard in both files: no listener is registered, a click on pill 1
  changes nothing, pills 0 and 2 keep the markers of the markup and the underline is
  never placed.
\<close>

theorem C4_counterexample:
  "initCapabilitiesTabs Main_js (ex_caps\<lparr>cap_panels := []\<rparr>) =
     ((None, ex_caps\<lparr>cap_panels := []\<rparr>), []) \<and>
   initCapabilitiesTabs Part_000 (ex_caps\<lparr>cap_panels := []\<rparr>) =
     ((None, ex_caps\<lparr>cap_panels := []\<rparr>), []) \<and>
   cap_dispatch Main_js (snd (initCapabilitiesTabs Main_js (ex_caps\<lparr>cap_panels := []\<rparr>)))
       (Click 1) (snd (fst (initCapabilitiesTabs Main_js (ex_caps\<lparr>cap_panels := []\<rparr>)))) =
     (None, ex_caps\<lparr>cap_panels := []\<rparr>) \<and>
   map pill_active (cap_pills (ex_caps\<lparr>cap_panels := []\<rparr>)) = [True, False, True] \<and>
   cap_underline (ex_caps\<lparr>cap_panels := []\<rparr>) =
     Some \<lparr>style_width = None, style_translateX = None\<rparr>"
  by (simp add: ex_defs initCapabilitiesTabs_def cap_dispatch_def)

text \<open>
  C4, amended. In the capabilities tabs of both files, when the content panels are
  absent the construction returns without an exception, writes nothing to the document
  and registers no listener, whatever else is present: the control is disabled, and no
  later event changes the document or throws.
\<close>

theorem C4_no_panels_disables_tabs:
  assumes "cap_panels d = []"
  shows "initCapabilitiesTabs b d = ((None, d), []) \<and>
         cap_dispatch b (snd (initCapabilitiesTabs b d)) ev
           (snd (fst (initCapabilitiesTabs b d))) = (None, d)"
  using assms by (simp add: initCapabilitiesTabs_guard cap_dispatch_no_listener)

theorem C4_witness:
  "cap_panels (ex_caps\<lparr>cap_panels := []\<rparr>) = [] \<and>
   initCapabilitiesTabs Part_000 (ex_caps\<lparr>cap_panels := []\<rparr>) =
     ((None, ex_caps\<lparr>cap_panels := []\<rparr>), []) \<and>
   cap_dispatch Part_000 (snd (initCapabilitiesTabs Part_000 (ex_caps\<lparr>cap_panels := []\<rparr>)))
       (Keydown ''ArrowRight'')
       (snd (fst (initCapabilitiesTabs Part_000 (ex_caps\<lparr>cap_panels := []\<rparr>)))) =
     (None, ex_caps\<lparr>cap_panels := []\<rparr>)"
  using C4_no_panels_disables_tabs [of "ex_caps\<lparr>cap_panels := []\<rparr>" Part_000
      "Keydown ''ArrowRight''"]
  by (simp add: cap_dispatch_def)

end
